theory Spec2Isabelle
  imports Complex_Main
begin

section \<open>Strings and paths\<close>

text \<open>
  Python's \<open>str.endswith\<close> and \<open>str.lower\<close>. Characters are bytes here, and
  \<open>lower\<close> maps the ASCII capitals only: the suffixes the program tests for are ASCII,
  and no other character lowers to one of their letters.
\<close>

definition endswith :: "string \<Rightarrow> string \<Rightarrow> bool" where
  "endswith s suf = (length suf \<le> length s \<and> drop (length s - length suf) s = suf)"

definition lower_char :: "char \<Rightarrow> char" where
  "lower_char c =
     (case map_of (zip ''ABCDEFGHIJKLMNOPQRSTUVWXYZ'' ''abcdefghijklmnopqrstuvwxyz'') c of
        None \<Rightarrow> c
      | Some l \<Rightarrow> l)"

definition lower :: "string \<Rightarrow> string" where
  "lower s = map lower_char s"

text \<open>
  A path is its string form \<open>str(path)\<close>, as \<open>pathlib\<close> normalises it. The program
  runs on Windows (it imports \<open>winreg\<close>), where both the backslash and the slash separate
  components and \<open>str\<close> writes the backslash.
\<close>

type_synonym path = string

definition sep :: char where
  "sep = CHR 0x5C"

definition is_sep :: "char \<Rightarrow> bool" where
  "is_sep c = (c = CHR 0x5C \<or> c = CHR ''/'')"

text \<open>\<open>Path.name\<close>: the final component; \<open>path_parent\<close> is what stands before it.\<close>

definition path_name :: "path \<Rightarrow> string" where
  "path_name p = rev (takeWhile (\<lambda>c. \<not> is_sep c) (rev p))"

definition path_parent :: "path \<Rightarrow> string" where
  "path_parent p = rev (dropWhile (\<lambda>c. \<not> is_sep c) (rev p))"

text \<open>
  \<open>Path.suffix\<close> of \<open>pathlib\<close>: with \<open>i = name.rfind('.')\<close>, the suffix is
  \<open>name[i:]\<close> when \<open>0 < i < len(name) - 1\<close> and empty otherwise.
\<close>

definition name_suffix :: "string \<Rightarrow> string" where
  "name_suffix nm =
     (let tl_part = rev (takeWhile (\<lambda>c. c \<noteq> CHR ''.'') (rev nm)) in
      if CHR ''.'' \<notin> set nm then []
      else if 0 < length nm - length tl_part - 1 \<and> tl_part \<noteq> []
           then CHR ''.'' # tl_part else [])"

datatype exc =
    ValueError string
  | FileNotFoundError string
  | PdfReadError string
  | OSError string
  | Exception string

text \<open>\<open>str(e)\<close> of an exception: its message.\<close>

fun exc_str :: "exc \<Rightarrow> string" where
  "exc_str (ValueError m) = m"
| "exc_str (FileNotFoundError m) = m"
| "exc_str (PdfReadError m) = m"
| "exc_str (OSError m) = m"
| "exc_str (Exception m) = m"

text \<open>
  \<open>Path.with_suffix(suffix)\<close> for a valid suffix: a path with an empty name raises
  \<open>ValueError\<close>; otherwise the old suffix (if any) is cut from the name and the new one
  appended.
\<close>

definition with_suffix :: "path \<Rightarrow> string \<Rightarrow> exc + path" where
  "with_suffix p suf =
     (let nm = path_name p; old = name_suffix nm in
      if nm = [] then Inl (ValueError (p @ '' has an empty name''))
      else Inr (path_parent p @ take (length nm - length old) nm @ suf))"

text \<open>\<open>Path(folder) / name\<close> for a folder with a non-empty string form.\<close>

definition joinpath :: "path \<Rightarrow> string \<Rightarrow> path" where
  "joinpath folder nm = (if folder \<noteq> [] \<and> is_sep (last folder) then folder @ nm
                         else folder @ [sep] @ nm)"

section \<open>Documents and the file system\<close>

text \<open>
  A page is opaque content; \<open>merge_page\<close> composites another page onto it. The free
  datatype keeps what was composited onto what.
\<close>

datatype page = Content nat | Merged page page

definition merge_page :: "page \<Rightarrow> page \<Rightarrow> page" where
  "merge_page p header = Merged p header"

datatype file_content = Pdf "page list" | Garbage

text \<open>
  \<open>PdfReader(str(path))\<close> followed by reading \<open>.pages\<close>: a missing file raises
  \<open>FileNotFoundError\<close>, a file that is no PDF raises \<open>PdfReadError\<close>.
\<close>

definition PdfReader :: "(path \<rightharpoonup> file_content) \<Rightarrow> path \<Rightarrow> exc + page list" where
  "PdfReader files p =
     (case files p of
        None \<Rightarrow> Inl (FileNotFoundError p)
      | Some Garbage \<Rightarrow> Inl (PdfReadError p)
      | Some (Pdf ps) \<Rightarrow> Inr ps)"

text \<open>
  What the program does that can be seen from outside, in the order it happens:
  sleeping, the calls of \<open>app_instance.notify\<close>, \<open>log_message\<close>,
  \<open>messagebox.showinfo\<close> and \<open>messagebox.showerror\<close>, a completed write of a file and a
  completed \<open>os.replace\<close>.
\<close>

datatype event =
    Sleep real
  | Notify string string
  | Log string
  | ShowInfo string string
  | ShowError string string
  | Wrote path
  | Replaced path path

text \<open>
  The module-level \<open>processed_files\<close> set is part of the state of the process, beside the
  file system and the trace of events.
\<close>

record world =
  fs :: "path \<rightharpoonup> file_content"
  processed_files :: "string set"
  trace :: "event list"

definition emit :: "event list \<Rightarrow> world \<Rightarrow> world" where
  "emit es w = w\<lparr>trace := trace w @ es\<rparr>"

section \<open>The merge\<close>

text \<open>
  Lines 140-143: the loop over \<open>invoice.pages\<close>; \<open>writer\<close> is the list of pages added
  so far.
\<close>

fun add_pages :: "page list \<Rightarrow> page \<Rightarrow> page list \<Rightarrow> page list" where
  "add_pages [] header_page writer = writer"
| "add_pages (page # rest) header_page writer =
     add_pages rest header_page (writer @ [merge_page page header_page])"

text \<open>
  Lines 135-143 on the two documents read: the check of the letterhead's page count, then
  the loop.
\<close>

definition merge_documents :: "page list \<Rightarrow> page list \<Rightarrow> exc + page list" where
  "merge_documents invoice letterhead =
     (if length letterhead \<noteq> 1
      then Inl (ValueError ''Letterhead PDF must have exactly one page.'')
      else Inr (add_pages invoice (letterhead ! 0) []))"

text \<open>
  How one attempt of the write loop meets the environment: \<open>open\<close>/\<open>write\<close> and
  \<open>os.replace\<close> each succeed, raise \<open>PermissionError\<close> (the file is locked by another
  process) or raise another \<open>OSError\<close>.
\<close>

datatype io = IoOk | IoLocked | IoFails

record attempt =
  write_io :: io
  replace_io :: io

definition check_mark :: string where
  "check_mark = [CHR 0xE2, CHR 0x9C, CHR 0x93]"

definition cross_mark :: string where
  "cross_mark = [CHR 0xE2, CHR 0x9C, CHR 0x97]"

text \<open>\<open>os.replace(src, dst)\<close> when it succeeds.\<close>

definition os_replace :: "path \<Rightarrow> path \<Rightarrow> (path \<rightharpoonup> file_content) \<Rightarrow> (path \<rightharpoonup> file_content)" where
  "os_replace src dst files = (if src = dst then files else (files(dst := files src))(src := None))"

text \<open>
  Lines 149-165: \<open>for _ in range(retries)\<close>. The first argument counts the iterations
  left, the second is the number of the attempt. The result is the exception that leaves
  the loop, if any, and the state reached.
\<close>

fun write_loop ::
  "nat \<Rightarrow> nat \<Rightarrow> (nat \<Rightarrow> attempt) \<Rightarrow> page list \<Rightarrow> path \<Rightarrow> path \<Rightarrow> path option \<Rightarrow> world
     \<Rightarrow> exc option \<times> world" where
  "write_loop 0 i att doc temp_path invoice_path output_path w =
     (Some (Exception ''Could not save file after multiple retries.''), w)"
| "write_loop (Suc k) i att doc temp_path invoice_path output_path w =
     (case write_io (att i) of
        IoLocked \<Rightarrow>
          write_loop k (Suc i) att doc temp_path invoice_path output_path (emit [Sleep 1.5] w)
      | IoFails \<Rightarrow> (Some (OSError temp_path), w)
      | IoOk \<Rightarrow>
          (let w1 = emit [Wrote temp_path] (w\<lparr>fs := (fs w)(temp_path \<mapsto> Pdf doc)\<rparr>) in
           case output_path of
             None \<Rightarrow>
               (case replace_io (att i) of
                  IoLocked \<Rightarrow>
                    write_loop k (Suc i) att doc temp_path invoice_path output_path
                      (emit [Sleep 1.5] w1)
                | IoFails \<Rightarrow> (Some (OSError invoice_path), w1)
                | IoOk \<Rightarrow>
                    (None,
                     emit [Replaced temp_path invoice_path,
                           Log (''['' @ check_mark @ ''] Merged: '' @ path_name invoice_path),
                           Notify ''Merge Complete'' (''Merged: '' @ path_name invoice_path)]
                       (w1\<lparr>fs := os_replace temp_path invoice_path (fs w1)\<rparr>)))
           | Some _ \<Rightarrow>
               (None,
                emit [Log (''['' @ check_mark @ ''] Manual Merge Saved: '' @ path_name temp_path),
                      ShowInfo ''Success'' (''Merged file saved:'' @ [CHR 0x0A] @ temp_path)]
                  w1)))"

text \<open>
  Lines 145-147: the path written to is the output path when one is given, else the
  source path with the suffix \<open>.merged.pdf\<close>.
\<close>

definition temp_path_for :: "path \<Rightarrow> path option \<Rightarrow> exc + path" where
  "temp_path_for invoice_path output_path =
     (case output_path of
        Some out \<Rightarrow> Inr out
      | None \<Rightarrow> with_suffix invoice_path ''.merged.pdf'')"

text \<open>
  Lines 133-165, the body of the outer \<open>try\<close> after the two guards: read both files,
  merge, choose the temporary path, write.
\<close>

definition merge_body ::
  "world \<Rightarrow> path \<Rightarrow> path \<Rightarrow> path option \<Rightarrow> int \<Rightarrow> (nat \<Rightarrow> attempt) \<Rightarrow> exc option \<times> world" where
  "merge_body w invoice_path letterhead_path output_path retries att =
     (case PdfReader (fs w) invoice_path of
        Inl e \<Rightarrow> (Some e, w)
      | Inr invoice \<Rightarrow>
     (case PdfReader (fs w) letterhead_path of
        Inl e \<Rightarrow> (Some e, w)
      | Inr letterhead \<Rightarrow>
     (case merge_documents invoice letterhead of
        Inl e \<Rightarrow> (Some e, w)
      | Inr doc \<Rightarrow>
     (case temp_path_for invoice_path output_path of
        Inl e \<Rightarrow> (Some e, w)
      | Inr temp_path \<Rightarrow>
          write_loop (nat retries) 0 att doc temp_path invoice_path output_path w))))"

text \<open>Lines 166-171: the handler of the outer \<open>try\<close>.\<close>

definition merge_failed :: "exc \<Rightarrow> path \<Rightarrow> path option \<Rightarrow> world \<Rightarrow> world" where
  "merge_failed e invoice_path output_path w =
     (let error_msg = ''Merge failed for '' @ path_name invoice_path @ '': '' @ exc_str e in
      emit ([Notify ''Merge Failed'' error_msg,
             Log (''['' @ cross_mark @ ''] '' @ error_msg)]
            @ (case output_path of None \<Rightarrow> [] | Some _ \<Rightarrow> [ShowError ''Merge Error'' (exc_str e)]))
        w)"

text \<open>
  \<open>merge_letterhead\<close>, lines 118-171. The world passed in holds the global
  \<open>processed_files\<close>; \<open>att\<close> says how each write attempt meets the environment.
\<close>

definition merge_letterhead ::
  "world \<Rightarrow> path \<Rightarrow> path \<Rightarrow> path option \<Rightarrow> int \<Rightarrow> (nat \<Rightarrow> attempt) \<Rightarrow> world" where
  "merge_letterhead w invoice_path letterhead_path output_path retries att =
     (if endswith (path_name invoice_path) ''.merged.pdf'' then w
      else if invoice_path \<in> processed_files w then w
      else
        (let w1 = w\<lparr>processed_files := insert invoice_path (processed_files w)\<rparr> in
         case merge_body w1 invoice_path letterhead_path output_path retries att of
           (None, w2) \<Rightarrow> w2
         | (Some e, w2) \<Rightarrow> merge_failed e invoice_path output_path w2))"

section \<open>The stability gate\<close>

text \<open>
  What one poll of \<open>wait_until_file_ready\<close> finds: the file does not exist
  (\<open>exists()\<close> is false), it exists and \<open>stat()\<close> gives its size, or it exists and
  is gone when \<open>stat()\<close> is called (\<open>FileNotFoundError\<close>).
\<close>

datatype obs = Absent | Size nat | Vanished

text \<open>
  Lines 176-188: \<open>for _ in range(timeout * 2)\<close>. The first argument counts the polls
  left, the second is the number of the poll, \<open>sizes\<close> says what each poll finds.
\<close>

fun poll :: "nat \<Rightarrow> nat \<Rightarrow> (nat \<Rightarrow> obs) \<Rightarrow> int \<Rightarrow> world \<Rightarrow> bool \<times> world" where
  "poll 0 i sizes last_size w = (False, w)"
| "poll (Suc k) i sizes last_size w =
     (case sizes i of
        Absent \<Rightarrow> poll k (Suc i) sizes last_size (emit [Sleep 0.5] w)
      | Vanished \<Rightarrow> (False, w)
      | Size current_size \<Rightarrow>
          if int current_size = last_size \<and> 0 < current_size then (True, w)
          else poll k (Suc i) sizes (int current_size) (emit [Sleep 0.5] w))"

definition wait_until_file_ready :: "(nat \<Rightarrow> obs) \<Rightarrow> int \<Rightarrow> world \<Rightarrow> bool \<times> world" where
  "wait_until_file_ready sizes timeout w = poll (nat (timeout * 2)) 0 sizes (- 1) w"

section \<open>The event handler\<close>

definition DEBOUNCE_SECONDS :: real where
  "DEBOUNCE_SECONDS = 10"

text \<open>
  \<open>InvoiceHandler\<close>: its own \<open>processed_files\<close> is the table of the last accepted time
  of each path, a \<open>defaultdict\<close> read with \<open>get(key, 0)\<close>.
\<close>

record handler =
  h_letterhead_path :: path
  h_processed_files :: "string \<rightharpoonup> real"
  start_time :: real

definition InvoiceHandler :: "path \<Rightarrow> real \<Rightarrow> handler" where
  "InvoiceHandler lh now_t =
     \<lparr>h_letterhead_path = lh, h_processed_files = Map.empty, start_time = now_t\<rparr>"

record fs_event =
  is_directory :: bool
  src_path :: string

text \<open>
  What the environment answers while one event is handled: \<open>time.time()\<close>, the
  file's \<open>st_mtime\<close> (\<open>None\<close> when \<open>stat()\<close> raises \<open>FileNotFoundError\<close>),
  \<open>str(path.resolve())\<close>, what the polls of the stability gate find and how the write
  attempts go.
\<close>

record env =
  now :: real
  mtime :: "real option"
  resolve :: "path \<Rightarrow> string"
  sizes :: "nat \<Rightarrow> obs"
  attempts :: "nat \<Rightarrow> attempt"

definition should_process :: "handler \<Rightarrow> path \<Rightarrow> env \<Rightarrow> bool \<times> handler" where
  "should_process h file_path e =
     (case mtime e of
        None \<Rightarrow> (False, h)
      | Some m \<Rightarrow>
          if m < start_time h then (False, h)
          else
            (let file_key = resolve e file_path in
             if now e - (case h_processed_files h file_key of None \<Rightarrow> 0 | Some t \<Rightarrow> t)
                  < DEBOUNCE_SECONDS
             then (False, h)
             else (True, h\<lparr>h_processed_files := (h_processed_files h)(file_key \<mapsto> now e)\<rparr>)))"

definition handle_pdf :: "handler \<Rightarrow> path \<Rightarrow> env \<Rightarrow> world \<Rightarrow> world" where
  "handle_pdf h file_path e w =
     (case wait_until_file_ready (sizes e) 10 w of
        (False, w1) \<Rightarrow> emit [Log (''[!] File never stabilized: '' @ path_name file_path)] w1
      | (True, w1) \<Rightarrow> merge_letterhead w1 file_path (h_letterhead_path h) None 3 (attempts e))"

definition passes_filter :: "fs_event \<Rightarrow> bool" where
  "passes_filter ev =
     (\<not> (is_directory ev
         \<or> \<not> endswith (lower (src_path ev)) ''.pdf''
         \<or> endswith (lower (src_path ev)) ''.merged.pdf''))"

definition process_event :: "handler \<Rightarrow> fs_event \<Rightarrow> env \<Rightarrow> world \<Rightarrow> handler \<times> world" where
  "process_event h ev e w =
     (if \<not> passes_filter ev then (h, w)
      else
        (let file_path = src_path ev in
         case should_process h file_path e of
           (True, h1) \<Rightarrow> (h1, handle_pdf h1 file_path e w)
         | (False, h1) \<Rightarrow> (h1, w)))"

definition on_created :: "handler \<Rightarrow> fs_event \<Rightarrow> env \<Rightarrow> world \<Rightarrow> handler \<times> world" where
  "on_created h ev e w = process_event h ev e w"

definition on_modified :: "handler \<Rightarrow> fs_event \<Rightarrow> env \<Rightarrow> world \<Rightarrow> handler \<times> world" where
  "on_modified h ev e w = process_event h ev e w"

section \<open>The application\<close>

text \<open>
  Of \<open>PDFMergerApp\<close>: the observer, which holds the handler of the running watch
  session, and the two configured paths.
\<close>

record app =
  observer :: "handler option"
  letterhead_path :: string
  watch_folder :: string




text \<open>
  \<open>manual_merge\<close>: \<open>input_pdf\<close> and \<open>output_pdf\<close> are what the two file dialogs
  return, empty when the user cancels.
\<close>

definition manual_merge :: "app \<Rightarrow> string \<Rightarrow> string \<Rightarrow> (nat \<Rightarrow> attempt) \<Rightarrow> world \<Rightarrow> world" where
  "manual_merge a input_pdf output_pdf att w =
     (if letterhead_path a = []
      then emit [ShowError ''Error'' ''Please select a Letterhead PDF first.''] w
      else if input_pdf = [] then w
      else if output_pdf = [] then w
      else merge_letterhead w input_pdf (letterhead_path a) (Some output_pdf) 3 att)"

text \<open>
  Lines 457-460, the loop of \<open>batch_merge\<close>; \<open>atts\<close> gives the write attempts of the
  file with each number. \<open>with_suffix\<close> is called outside every \<open>try\<close>: its exception
  ends the loop.
\<close>

fun batch_loop ::
  "path list \<Rightarrow> nat \<Rightarrow> path \<Rightarrow> path \<Rightarrow> (nat \<Rightarrow> nat \<Rightarrow> attempt) \<Rightarrow> world \<Rightarrow> exc option \<times> world" where
  "batch_loop [] n lh output_folder atts w = (None, w)"
| "batch_loop (file # rest) n lh output_folder atts w =
     (case with_suffix file ''.merged.pdf'' of
        Inl e \<Rightarrow> (Some e, w)
      | Inr named \<Rightarrow>
          (let out_path = joinpath output_folder (path_name named) in
           batch_loop rest (Suc n) lh output_folder atts
             (merge_letterhead w file lh (Some out_path) 3 (atts n))))"

definition batch_merge ::
  "app \<Rightarrow> path list \<Rightarrow> string \<Rightarrow> (nat \<Rightarrow> nat \<Rightarrow> attempt) \<Rightarrow> world \<Rightarrow> exc option \<times> world" where
  "batch_merge a files output_folder atts w =
     (if letterhead_path a = []
      then (None, emit [ShowError ''Error'' ''Please select a Letterhead PDF first.''] w)
      else if files = [] then (None, w)
      else if output_folder = [] then (None, w)
      else batch_loop files 0 (letterhead_path a) output_folder atts w)"

text \<open>
  One process run: the steps that touch the state, one after the other. The observer
  delivers an event to the handler of the running session; without a session the event is
  not delivered. \<open>External\<close> is another process creating, changing or deleting a file.
\<close>

datatype step =
    ToggleWatch real
  | Created fs_event env
  | Modified fs_event env
  | ManualMerge string string "nat \<Rightarrow> attempt"
  | BatchMerge "path list" string "nat \<Rightarrow> nat \<Rightarrow> attempt"
  | SelectLetterhead string
  | SelectFolder string real
  | External path "file_content option"




text \<open>
  The start of the process: \<open>processed_files = set()\<close>, nothing has happened yet, no
  watch session is running.
\<close>

definition start :: "(path \<rightharpoonup> file_content) \<Rightarrow> string \<Rightarrow> string \<Rightarrow> app \<times> world" where
  "start files lh folder =
     (\<lparr>observer = None, letterhead_path = lh, watch_folder = folder\<rparr>,
      \<lparr>fs = files, processed_files = {}, trace = []\<rparr>)"

text \<open>The in-place merges of a path that a trace records.\<close>

fun replaced_onto :: "path \<Rightarrow> event \<Rightarrow> bool" where
  "replaced_onto p (Replaced src dst) = (dst = p)"
| "replaced_onto p _ = False"

definition in_place_merges :: "path \<Rightarrow> event list \<Rightarrow> nat" where
  "in_place_merges p tr = length (filter (replaced_onto p) tr)"

section \<open>Example inputs\<close>

text \<open>A folder with a two-page invoice and a one-page letterhead; writes that succeed.\<close>

definition example_fs :: "path \<rightharpoonup> file_content" where
  "example_fs = [''a.pdf'' \<mapsto> Pdf [Content 1, Content 2], ''lh.pdf'' \<mapsto> Pdf [Content 9]]"

definition always_ok :: "nat \<Rightarrow> attempt" where
  "always_ok i = \<lparr>write_io = IoOk, replace_io = IoOk\<rparr>"

definition example_app :: app where
  "example_app = \<lparr>observer = None, letterhead_path = ''lh.pdf'', watch_folder = ''in''\<rparr>"

text \<open>The same folder with a letterhead of two pages.\<close>

definition two_page_fs :: "path \<rightharpoonup> file_content" where
  "two_page_fs =
     [''a.pdf'' \<mapsto> Pdf [Content 1, Content 2], ''lh.pdf'' \<mapsto> Pdf [Content 8, Content 9]]"

section \<open>The stability rule in the words of the specification\<close>




text \<open>
  Other histories of a file: it stays empty; it is gone when \<open>stat()\<close> is called at
  the second poll; it is deleted after the first poll and stays away.
\<close>

definition stays_empty :: "nat \<Rightarrow> obs" where
  "stays_empty i = Size 0"



definition written :: "nat \<Rightarrow> obs" where
  "written i = Size 100"

definition example_world :: world where
  "example_world = \<lparr>fs = example_fs, processed_files = {}, trace = []\<rparr>"

section \<open>Write attempts in the words of the specification\<close>

text \<open>
  An attempt fails on a lock when the write raises \<open>PermissionError\<close>, or, for an
  in-place job, when the write goes through and \<open>os.replace\<close> raises it. An attempt
  succeeds when the write goes through and, for an in-place job, the replace too.
\<close>

definition locked_attempt :: "path option \<Rightarrow> attempt \<Rightarrow> bool" where
  "locked_attempt output_path t =
     (write_io t = IoLocked \<or> (output_path = None \<and> write_io t = IoOk \<and> replace_io t = IoLocked))"

definition good_attempt :: "path option \<Rightarrow> attempt \<Rightarrow> bool" where
  "good_attempt output_path t =
     (write_io t = IoOk \<and> (output_path = None \<longrightarrow> replace_io t = IoOk))"

text \<open>The sleeps and the completed replacements of a trace.\<close>

fun is_sleep :: "event \<Rightarrow> bool" where
  "is_sleep (Sleep d) = True"
| "is_sleep _ = False"

fun is_replaced :: "event \<Rightarrow> bool" where
  "is_replaced (Replaced src dst) = True"
| "is_replaced _ = False"

definition sleeps :: "event list \<Rightarrow> event list" where
  "sleeps tr = filter is_sleep tr"

definition replacements :: "event list \<Rightarrow> event list" where
  "replacements tr = filter is_replaced tr"

text \<open>The path a job writes last: the source for an in-place job, else the output path.\<close>

definition target :: "path \<Rightarrow> path option \<Rightarrow> path" where
  "target invoice_path output_path =
     (case output_path of None \<Rightarrow> invoice_path | Some out \<Rightarrow> out)"

text \<open>
  The file is locked for the first two attempts (the write at the first, the replace at
  the second) and free from the third on; and a file that stays locked.
\<close>

definition locked_twice :: "nat \<Rightarrow> attempt" where
  "locked_twice i =
     (if i = 0 then \<lparr>write_io = IoLocked, replace_io = IoOk\<rparr>
      else if i = 1 then \<lparr>write_io = IoOk, replace_io = IoLocked\<rparr>
      else \<lparr>write_io = IoOk, replace_io = IoOk\<rparr>)"

definition always_locked :: "nat \<Rightarrow> attempt" where
  "always_locked i = \<lparr>write_io = IoOk, replace_io = IoLocked\<rparr>"

section \<open>The pipeline in the words of the specification\<close>

text \<open>
  The order of stages that the specification gives: filter, then the wait of the
  stability gate, then the debounce check, then the merge. It is stated here to be
  compared with \<open>process_event\<close>.
\<close>

definition spec_process_event :: "handler \<Rightarrow> fs_event \<Rightarrow> env \<Rightarrow> world \<Rightarrow> handler \<times> world" where
  "spec_process_event h ev e w =
     (if \<not> passes_filter ev then (h, w)
      else
        (let file_path = src_path ev in
         case wait_until_file_ready (sizes e) 10 w of
           (False, w1) \<Rightarrow>
             (h, emit [Log (''[!] File never stabilized: '' @ path_name file_path)] w1)
         | (True, w1) \<Rightarrow>
             (case should_process h file_path e of
                (True, h1) \<Rightarrow>
                  (h1, merge_letterhead w1 file_path (h_letterhead_path h1) None 3 (attempts e))
              | (False, h1) \<Rightarrow> (h1, w1))))"

text \<open>The handling of an event reaches the call of \<open>merge_letterhead\<close>.\<close>

definition calls_merge :: "handler \<Rightarrow> fs_event \<Rightarrow> env \<Rightarrow> world \<Rightarrow> bool" where
  "calls_merge h ev e w =
     (passes_filter ev \<and> fst (should_process h (src_path ev) e)
      \<and> fst (wait_until_file_ready (sizes e) 10 w))"

text \<open>
  A session started at time 0; the event for \<open>a.pdf\<close>; an environment at time 100 in
  which the file was changed at time 50 and stays empty, and one at time 104 in which it
  has been written. A handler that accepted the path at time 95.
\<close>

definition example_handler :: handler where
  "example_handler = InvoiceHandler ''lh.pdf'' 0"

definition example_event :: fs_event where
  "example_event = \<lparr>is_directory = False, src_path = ''a.pdf''\<rparr>"

definition empty_file_env :: env where
  "empty_file_env =
     \<lparr>now = 100, mtime = Some 50, resolve = (\<lambda>p. p), sizes = stays_empty, attempts = always_ok\<rparr>"

definition written_env :: env where
  "written_env =
     \<lparr>now = 104, mtime = Some 50, resolve = (\<lambda>p. p), sizes = written, attempts = always_ok\<rparr>"

definition recent_handler :: handler where
  "recent_handler = example_handler\<lparr>h_processed_files := [''a.pdf'' \<mapsto> 95]\<rparr>"

text \<open>The environment of a first event at time 100, the file written.\<close>

definition first_env :: env where
  "first_env =
     \<lparr>now = 100, mtime = Some 50, resolve = (\<lambda>p. p), sizes = written, attempts = always_ok\<rparr>"

section \<open>What a step of the process may do\<close>

text \<open>
  From one state to a later one the processed set only grows, the trace is only
  extended, and the extension merges in place only paths that have entered the processed
  set in between, each at most once.
\<close>

definition grows :: "world \<Rightarrow> world \<Rightarrow> bool" where
  "grows w w' =
     (processed_files w \<subseteq> processed_files w'
      \<and> (\<exists>es. trace w' = trace w @ es
            \<and> (\<forall>p. in_place_merges p es
                     \<le> (if p \<in> processed_files w' - processed_files w then 1 else 0))))"




section \<open>Batch output in the words of the specification\<close>







section \<open>The page overlay\<close>

lemma add_pages_map: "add_pages D h acc = acc @ map (\<lambda>p. merge_page p h) D"
  by (induction D arbitrary: acc) simp_all

lemma merge_documents_one_page:
  "length L = 1 \<Longrightarrow> merge_documents D L = Inr (map (\<lambda>p. merge_page p (L ! 0)) D)"
  by (simp add: merge_documents_def add_pages_map)

text \<open>
  C2. For every invoice document \<open>D\<close> and every one-page letterhead \<open>L\<close>, the merge
  returns a document with as many pages as \<open>D\<close>, in the same order: page \<open>i\<close> is page
  \<open>i\<close> of \<open>D\<close> with the letterhead's single page composited onto it. An invoice without
  pages gives a document without pages, not an error.
\<close>

theorem merge_documents_pages:
  assumes "length L = 1"
  shows "\<exists>R. merge_documents D L = Inr R \<and> length R = length D
           \<and> (\<forall>i<length D. R ! i = merge_page (D ! i) (L ! 0))
           \<and> (D = [] \<longrightarrow> R = [])"
  using assms by (simp add: merge_documents_one_page)

theorem merge_documents_pages_witness:
  "length [Content 9] = 1
   \<and> merge_documents [Content 1, Content 2] [Content 9]
       = Inr [Merged (Content 1) (Content 9), Merged (Content 2) (Content 9)]
   \<and> merge_documents [] [Content 9] = Inr []"
proof -
  have one: "length [Content 9] = 1" by simp
  from merge_documents_pages [OF one, of "[Content 1, Content 2]"]
  obtain R where R: "merge_documents [Content 1, Content 2] [Content 9] = Inr R"
    and len: "length R = 2"
    and nth: "\<forall>i<2. R ! i = merge_page ([Content 1, Content 2] ! i) ([Content 9] ! 0)"
    by auto
  from nth have "R ! 0 = Merged (Content 1) (Content 9)" "R ! 1 = Merged (Content 2) (Content 9)"
    by (simp_all add: merge_page_def)
  with len have "R = [Merged (Content 1) (Content 9), Merged (Content 2) (Content 9)]"
    by (cases R; cases "tl R"; cases "tl (tl R)") auto
  moreover from merge_documents_pages [OF one, of "[]"]
  have "merge_documents [] [Content 9] = Inr []" by auto
  ultimately show ?thesis using R by simp
qed

section \<open>The guards of the merge\<close>

lemma merge_letterhead_skip:
  "invoice_path \<in> processed_files w \<or> endswith (path_name invoice_path) ''.merged.pdf''
   \<Longrightarrow> merge_letterhead w invoice_path lh output_path retries att = w"
  by (auto simp: merge_letterhead_def)

lemma batch_loop_skip:
  "\<forall>f\<in>set files. f \<in> processed_files w \<or> endswith (path_name f) ''.merged.pdf''
   \<Longrightarrow> snd (batch_loop files n lh folder atts w) = w"
  by (induction files arbitrary: n) (auto simp: merge_letterhead_skip split: sum.splits)

text \<open>
  C10. Every call of the merge whose source path is already in the process-wide processed
  set, or whose source name ends with \<open>.merged.pdf\<close>, returns with the state as it was,
  with or without an explicit output path: no file is written, nothing is added to the
  processed set, and no notification, log line or dialog is produced. So a manual merge
  of such a source, and a batch merge of such sources, produce no output at all.
\<close>

theorem merge_returns_silently:
  "(invoice_path \<in> processed_files w \<or> endswith (path_name invoice_path) ''.merged.pdf''
      \<longrightarrow> merge_letterhead w invoice_path lh output_path retries att = w)
   \<and> (letterhead_path a \<noteq> []
        \<and> (input_pdf \<in> processed_files w \<or> endswith (path_name input_pdf) ''.merged.pdf'')
      \<longrightarrow> manual_merge a input_pdf output_pdf att w = w)
   \<and> (letterhead_path a \<noteq> []
        \<and> (\<forall>f\<in>set files. f \<in> processed_files w \<or> endswith (path_name f) ''.merged.pdf'')
      \<longrightarrow> snd (batch_merge a files folder atts w) = w)"
  by (simp add: merge_letterhead_skip manual_merge_def batch_merge_def batch_loop_skip)

theorem merge_returns_silently_witness:
  "merge_letterhead \<lparr>fs = example_fs, processed_files = {''a.pdf''}, trace = []\<rparr>
     ''a.pdf'' ''lh.pdf'' (Some ''out.pdf'') 3 always_ok
     = \<lparr>fs = example_fs, processed_files = {''a.pdf''}, trace = []\<rparr>
   \<and> manual_merge example_app ''a.pdf'' ''out.pdf'' always_ok
       \<lparr>fs = example_fs, processed_files = {''a.pdf''}, trace = []\<rparr>
     = \<lparr>fs = example_fs, processed_files = {''a.pdf''}, trace = []\<rparr>
   \<and> snd (batch_merge example_app [''a.pdf'', ''b.merged.pdf''] ''out'' (\<lambda>n. always_ok)
            \<lparr>fs = example_fs, processed_files = {''a.pdf''}, trace = []\<rparr>)
     = \<lparr>fs = example_fs, processed_files = {''a.pdf''}, trace = []\<rparr>"
  using merge_returns_silently
    [where invoice_path = "''a.pdf''" and input_pdf = "''a.pdf''"
       and files = "[''a.pdf'', ''b.merged.pdf'']" and a = example_app
       and w = "\<lparr>fs = example_fs, processed_files = {''a.pdf''}, trace = []\<rparr>"
       and lh = "''lh.pdf''" and output_path = "Some ''out.pdf''" and retries = 3
       and att = always_ok and output_pdf = "''out.pdf''" and folder = "''out''"
       and atts = "\<lambda>n. always_ok"]
  by (simp add: example_app_def endswith_def path_name_def is_sep_def)

section \<open>The letterhead check\<close>

lemma fs_emit [simp]: "fs (emit es w) = fs w"
  by (simp add: emit_def)

lemma processed_emit [simp]: "processed_files (emit es w) = processed_files w"
  by (simp add: emit_def)

lemma trace_emit [simp]: "trace (emit es w) = trace w @ es"
  by (simp add: emit_def)

lemma fs_merge_failed [simp]: "fs (merge_failed e p outp w) = fs w"
  by (simp add: merge_failed_def Let_def)

lemma processed_merge_failed [simp]:
  "processed_files (merge_failed e p outp w) = processed_files w"
  by (simp add: merge_failed_def Let_def)

lemma trace_merge_failed:
  "trace (merge_failed e p outp w) =
     trace w
     @ [Notify ''Merge Failed'' (''Merge failed for '' @ path_name p @ '': '' @ exc_str e),
        Log (''['' @ cross_mark @ ''] Merge failed for '' @ path_name p @ '': '' @ exc_str e)]
     @ (case outp of None \<Rightarrow> [] | Some _ \<Rightarrow> [ShowError ''Merge Error'' (exc_str e)])"
  by (simp add: merge_failed_def Let_def)

lemma merge_letterhead_invalid_fs:
  assumes "fs w lh = Some (Pdf L)" "length L \<noteq> 1"
  shows "fs (merge_letterhead w invoice_path lh output_path retries att) = fs w"
  using assms
  by (auto simp: merge_letterhead_def merge_body_def PdfReader_def merge_documents_def
      split: option.splits file_content.splits)

lemma merge_letterhead_invalid_trace:
  assumes "fs w lh = Some (Pdf L)" "length L \<noteq> 1" "fs w invoice_path = Some (Pdf D)"
    "\<not> endswith (path_name invoice_path) ''.merged.pdf''" "invoice_path \<notin> processed_files w"
  shows "trace (merge_letterhead w invoice_path lh output_path retries att) =
     trace w
     @ [Notify ''Merge Failed''
          (''Merge failed for '' @ path_name invoice_path
           @ '': Letterhead PDF must have exactly one page.''),
        Log (''['' @ cross_mark @ ''] Merge failed for '' @ path_name invoice_path
             @ '': Letterhead PDF must have exactly one page.'')]
     @ (case output_path of
          None \<Rightarrow> []
        | Some _ \<Rightarrow> [ShowError ''Merge Error'' ''Letterhead PDF must have exactly one page.''])"
  using assms
  by (auto simp: merge_letterhead_def merge_body_def PdfReader_def merge_documents_def
      trace_merge_failed split: option.splits file_content.splits)

text \<open>
  C5. The merge of the documents fails with the letterhead error for every letterhead
  whose page count is not 1 (0 and 2 included) and passes the check for every one-page
  letterhead. When the letterhead read from disk has a page count other than 1,
  \<open>merge_letterhead\<close> leaves the file system as it was: no output file is written. The
  error is caught at the job boundary and shown as a notification and a log line (and a
  dialog when an output path was given).
\<close>

theorem invalid_letterhead_rejected:
  "(length L \<noteq> 1 \<longrightarrow>
      merge_documents D L = Inl (ValueError ''Letterhead PDF must have exactly one page.''))
   \<and> (length L = 1 \<longrightarrow> (\<exists>R. merge_documents D L = Inr R))
   \<and> (length L \<noteq> 1 \<and> fs w lh = Some (Pdf L) \<longrightarrow>
        fs (merge_letterhead w invoice_path lh output_path retries att) = fs w)
   \<and> (length L \<noteq> 1 \<and> fs w lh = Some (Pdf L) \<and> fs w invoice_path = Some (Pdf D)
        \<and> \<not> endswith (path_name invoice_path) ''.merged.pdf''
        \<and> invoice_path \<notin> processed_files w \<longrightarrow>
        trace (merge_letterhead w invoice_path lh output_path retries att) =
          trace w
          @ [Notify ''Merge Failed''
               (''Merge failed for '' @ path_name invoice_path
                @ '': Letterhead PDF must have exactly one page.''),
             Log (''['' @ cross_mark @ ''] Merge failed for '' @ path_name invoice_path
                  @ '': Letterhead PDF must have exactly one page.'')]
          @ (case output_path of
               None \<Rightarrow> []
             | Some _ \<Rightarrow> [ShowError ''Merge Error'' ''Letterhead PDF must have exactly one page.'']))"
  using merge_letterhead_invalid_fs merge_letterhead_invalid_trace
  by (simp add: merge_documents_def)

theorem invalid_letterhead_rejected_witness:
  "merge_documents [Content 1, Content 2] []
     = Inl (ValueError ''Letterhead PDF must have exactly one page.'')
   \<and> merge_documents [Content 1, Content 2] [Content 8, Content 9]
     = Inl (ValueError ''Letterhead PDF must have exactly one page.'')
   \<and> (\<exists>R. merge_documents [Content 1, Content 2] [Content 9] = Inr R)
   \<and> fs (merge_letterhead \<lparr>fs = two_page_fs, processed_files = {}, trace = []\<rparr>
            ''a.pdf'' ''lh.pdf'' None 3 always_ok) = two_page_fs
   \<and> trace (merge_letterhead \<lparr>fs = two_page_fs, processed_files = {}, trace = []\<rparr>
               ''a.pdf'' ''lh.pdf'' None 3 always_ok) =
       [Notify ''Merge Failed''
          ''Merge failed for a.pdf: Letterhead PDF must have exactly one page.'',
        Log (''['' @ cross_mark
             @ ''] Merge failed for a.pdf: Letterhead PDF must have exactly one page.'')]"
  using invalid_letterhead_rejected [where L = "[]" and D = "[Content 1, Content 2]"]
    invalid_letterhead_rejected [where L = "[Content 9]" and D = "[Content 1, Content 2]"]
    invalid_letterhead_rejected
      [where L = "[Content 8, Content 9]" and D = "[Content 1, Content 2]"
         and w = "\<lparr>fs = two_page_fs, processed_files = {}, trace = []\<rparr>"
         and lh = "''lh.pdf''" and invoice_path = "''a.pdf''" and output_path = None
         and retries = 3 and att = always_ok]
  by (simp add: two_page_fs_def endswith_def path_name_def is_sep_def)

section \<open>The stability gate: what it returns\<close>

lemma emit_emit: "emit es (emit es' w) = emit (es' @ es) w"
  by (simp add: emit_def)

lemma emit_Nil [simp]: "emit [] w = w"
  by (simp add: emit_def)


lemma poll_sleeps:
  "\<exists>m\<le>k. snd (poll k i szs last_size w) = emit (replicate m (Sleep 0.5)) w"
proof (induction k arbitrary: i last_size w)
  case 0
  then show ?case by simp
next
  case (Suc k)
  have step: "\<exists>m\<le>Suc k. snd (poll k (Suc i) szs l (emit [Sleep 0.5] w)) = emit (replicate m (Sleep 0.5)) w" for l
  proof -
    from Suc.IH [of "Suc i" l "emit [Sleep 0.5] w"]
    obtain m where "m \<le> k" "snd (poll k (Suc i) szs l (emit [Sleep 0.5] w)) = emit (replicate m (Sleep 0.5)) (emit [Sleep 0.5] w)"
      by blast
    then have "Suc m \<le> Suc k \<and> snd (poll k (Suc i) szs l (emit [Sleep 0.5] w)) = emit (replicate (Suc m) (Sleep 0.5)) w"
      by (simp add: emit_emit)
    then show ?thesis by blast
  qed
  have stay: "\<exists>m\<le>Suc k. w = emit (replicate m (Sleep 0.5)) w"
    by (rule exI [of _ 0]) simp
  show ?case
    by (cases "szs i") (use step stay in \<open>auto simp del: replicate_Suc\<close>)
qed













section \<open>Writing with retries\<close>

lemma sleeps_append [simp]: "sleeps (xs @ ys) = sleeps xs @ sleeps ys"
  by (simp add: sleeps_def)
lemma replacements_append [simp]: "replacements (xs @ ys) = replacements xs @ replacements ys"
  by (simp add: replacements_def)

lemma write_loop_processed [simp]:
  "processed_files (snd (write_loop n i att doc temp src outp w)) = processed_files w"
  by (induction n arbitrary: i w) (auto split: io.splits option.splits simp: Let_def)

lemma write_loop_success:
  assumes "\<forall>j<k. locked_attempt outp (att (i + j))" "good_attempt outp (att (i + k))" "k < n"
  shows "fst (write_loop n i att doc temp src outp w) = None
     \<and> fs (snd (write_loop n i att doc temp src outp w)) =
         (if outp = None then os_replace temp src ((fs w)(temp \<mapsto> Pdf doc))
          else (fs w)(temp \<mapsto> Pdf doc))
     \<and> (\<exists>es. trace (snd (write_loop n i att doc temp src outp w)) = trace w @ es
            \<and> sleeps es = replicate k (Sleep (3 / 2))
            \<and> replacements es = (if outp = None then [Replaced temp src] else []))"
  using assms
proof (induction k arbitrary: n i w)
  case 0
  then obtain n' where n: "n = Suc n'" by (cases n) auto
  from 0 show ?case
    by (auto simp: n good_attempt_def Let_def sleeps_def replacements_def split: option.splits)
next
  case (Suc k)
  then obtain n' where n: "n = Suc n'" and kn: "k < n'" by (cases n) auto
  from Suc.prems(1) have first: "locked_attempt outp (att i)" by (metis add.right_neutral zero_less_Suc)
  from Suc.prems(1) have rest: "\<forall>j<k. locked_attempt outp (att (Suc i + j))" by auto
  from Suc.prems(2) have good: "good_attempt outp (att (Suc i + k))" by simp
  note IH = Suc.IH [OF rest good kn]
  from first consider (wl) "write_io (att i) = IoLocked"
    | (rl) "outp = None" "write_io (att i) = IoOk" "replace_io (att i) = IoLocked"
    by (auto simp: locked_attempt_def)
  then show ?case
  proof cases
    case wl
    from IH [of "emit [Sleep (3 / 2)] w"] obtain es where
      "fst (write_loop n' (Suc i) att doc temp src outp (emit [Sleep (3 / 2)] w)) = None"
      "fs (snd (write_loop n' (Suc i) att doc temp src outp (emit [Sleep (3 / 2)] w))) =
         (if outp = None then os_replace temp src ((fs w)(temp \<mapsto> Pdf doc))
          else (fs w)(temp \<mapsto> Pdf doc))"
      "trace (snd (write_loop n' (Suc i) att doc temp src outp (emit [Sleep (3 / 2)] w))) = (trace w @ [Sleep (3 / 2)]) @ es"
      "sleeps es = replicate k (Sleep (3 / 2))"
      "replacements es = (if outp = None then [Replaced temp src] else [])"
      by auto
    then show ?thesis using wl
      by (auto simp: n sleeps_def replacements_def intro!: exI [of _ "Sleep (3 / 2) # es"])
  next
    case rl
    let ?w1 = "emit [Sleep (3 / 2)] (emit [Wrote temp] (w\<lparr>fs := (fs w)(temp \<mapsto> Pdf doc)\<rparr>))"
    from IH [of ?w1] obtain es where
      "fst (write_loop n' (Suc i) att doc temp src outp ?w1) = None"
      "fs (snd (write_loop n' (Suc i) att doc temp src outp ?w1)) =
         (if outp = None then os_replace temp src ((fs w)(temp \<mapsto> Pdf doc))
          else (fs w)(temp \<mapsto> Pdf doc))"
      "trace (snd (write_loop n' (Suc i) att doc temp src outp ?w1)) = (trace w @ [Wrote temp, Sleep (3 / 2)]) @ es"
      "sleeps es = replicate k (Sleep (3 / 2))"
      "replacements es = (if outp = None then [Replaced temp src] else [])"
      by auto
    then show ?thesis using rl
      by (auto simp: n Let_def sleeps_def replacements_def intro!: exI [of _ "Wrote temp # Sleep (3 / 2) # es"])
  qed
qed

lemma write_loop_all_locked:
  assumes "\<forall>j<n. locked_attempt outp (att (i + j))"
  shows "fst (write_loop n i att doc temp src outp w)
           = Some (Exception ''Could not save file after multiple retries.'')
     \<and> (\<forall>p. p \<noteq> temp \<longrightarrow> fs (snd (write_loop n i att doc temp src outp w)) p = fs w p)
     \<and> (\<exists>es. trace (snd (write_loop n i att doc temp src outp w)) = trace w @ es
            \<and> sleeps es = replicate n (Sleep (3 / 2)) \<and> replacements es = [])"
  using assms
proof (induction n arbitrary: i w)
  case 0
  then show ?case by (simp add: sleeps_def replacements_def)
next
  case (Suc n)
  from Suc.prems have first: "locked_attempt outp (att i)" by (metis add.right_neutral zero_less_Suc)
  from Suc.prems have rest: "\<forall>j<n. locked_attempt outp (att (Suc i + j))" by auto
  note IH = Suc.IH [OF rest]
  from first consider (wl) "write_io (att i) = IoLocked"
    | (rl) "outp = None" "write_io (att i) = IoOk" "replace_io (att i) = IoLocked"
    by (auto simp: locked_attempt_def)
  then show ?case
  proof cases
    case wl
    from IH [of "emit [Sleep (3 / 2)] w"] obtain es where
      "fst (write_loop n (Suc i) att doc temp src outp (emit [Sleep (3 / 2)] w))
         = Some (Exception ''Could not save file after multiple retries.'')"
      "\<forall>p. p \<noteq> temp \<longrightarrow> fs (snd (write_loop n (Suc i) att doc temp src outp (emit [Sleep (3 / 2)] w))) p = fs w p"
      "trace (snd (write_loop n (Suc i) att doc temp src outp (emit [Sleep (3 / 2)] w))) = (trace w @ [Sleep (3 / 2)]) @ es"
      "sleeps es = replicate n (Sleep (3 / 2))" "replacements es = []"
      by auto
    then show ?thesis using wl
      by (auto simp: sleeps_def replacements_def intro!: exI [of _ "Sleep (3 / 2) # es"])
  next
    case rl
    let ?w1 = "emit [Sleep (3 / 2)] (emit [Wrote temp] (w\<lparr>fs := (fs w)(temp \<mapsto> Pdf doc)\<rparr>))"
    from IH [of ?w1] obtain es where
      "fst (write_loop n (Suc i) att doc temp src outp ?w1)
         = Some (Exception ''Could not save file after multiple retries.'')"
      "\<forall>p. p \<noteq> temp \<longrightarrow> fs (snd (write_loop n (Suc i) att doc temp src outp ?w1)) p = fs w p"
      "trace (snd (write_loop n (Suc i) att doc temp src outp ?w1)) = (trace w @ [Wrote temp, Sleep (3 / 2)]) @ es"
      "sleeps es = replicate n (Sleep (3 / 2))" "replacements es = []"
      by auto
    then show ?thesis using rl
      by (auto simp: Let_def sleeps_def replacements_def intro!: exI [of _ "Wrote temp # Sleep (3 / 2) # es"])
  qed
qed

lemma path_name_parent_append:
  assumes "\<forall>c\<in>set x. \<not> is_sep c"
  shows "path_name (path_parent p @ x) = x"
proof -
  have "takeWhile (\<lambda>c. \<not> is_sep c) (rev x @ dropWhile (\<lambda>c. \<not> is_sep c) (rev p)) = rev x"
  proof (cases "dropWhile (\<lambda>c. \<not> is_sep c) (rev p)")
    case Nil
    then show ?thesis using assms unfolding Nil by simp
  next
    case (Cons c cs)
    then have "is_sep c" using hd_dropWhile [of "\<lambda>c. \<not> is_sep c" "rev p"] by auto
    then show ?thesis using assms unfolding Cons by (simp add: takeWhile_tail)
  qed
  then show ?thesis by (simp add: path_name_def path_parent_def)
qed

lemma path_name_no_sep: "\<forall>c\<in>set (path_name p). \<not> is_sep c"
  using set_takeWhileD [of _ "\<lambda>c. \<not> is_sep c" "rev p"] by (auto simp: path_name_def)

lemma with_suffix_name:
  assumes "with_suffix p suf = Inr t" "\<forall>c\<in>set suf. \<not> is_sep c"
  shows "path_name t =
     take (length (path_name p) - length (name_suffix (path_name p))) (path_name p) @ suf"
proof -
  let ?stem = "take (length (path_name p) - length (name_suffix (path_name p))) (path_name p)"
  from assms(1) have t: "t = path_parent p @ ?stem @ suf"
    by (auto simp: with_suffix_def Let_def split: if_splits)
  have "\<forall>c\<in>set (?stem @ suf). \<not> is_sep c"
    using assms(2) path_name_no_sep [of p] by (auto dest: in_set_takeD)
  then show ?thesis unfolding t by (rule path_name_parent_append)
qed

lemma endswith_append [simp]: "endswith (xs @ suf) suf"
  by (simp add: endswith_def)

lemma with_suffix_differs:
  assumes "with_suffix p suf = Inr t" "\<forall>c\<in>set suf. \<not> is_sep c" "\<not> endswith (path_name p) suf"
  shows "t \<noteq> p"
proof
  assume "t = p"
  with with_suffix_name [OF assms(1,2)] have "endswith (path_name p) suf"
    by (metis endswith_append)
  with assms(3) show False by simp
qed

lemma merged_suffix_no_sep: "\<forall>c\<in>set ''.merged.pdf''. \<not> is_sep c"
  by (simp add: is_sep_def)

lemma temp_path_differs:
  assumes "temp_path_for src None = Inr temp" "\<not> endswith (path_name src) ''.merged.pdf''"
  shows "temp \<noteq> src"
  using assms with_suffix_differs [OF _ merged_suffix_no_sep, of src temp]
  by (simp add: temp_path_for_def)

lemma merge_body_write:
  assumes "fs w src = Some (Pdf D)" "fs w lh = Some (Pdf L)" "length L = 1"
    "temp_path_for src outp = Inr temp"
  shows "merge_body w src lh outp retries att =
     write_loop (nat retries) 0 att (map (\<lambda>p. merge_page p (L ! 0)) D) temp src outp w"
  using assms by (simp add: merge_body_def PdfReader_def merge_documents_one_page)

lemma merge_letterhead_run:
  assumes "\<not> endswith (path_name src) ''.merged.pdf''" "src \<notin> processed_files w"
    "fs w src = Some (Pdf D)" "fs w lh = Some (Pdf L)" "length L = 1"
    "temp_path_for src outp = Inr temp"
  shows "merge_letterhead w src lh outp retries att =
     (case write_loop (nat retries) 0 att (map (\<lambda>p. merge_page p (L ! 0)) D) temp src outp
             (w\<lparr>processed_files := insert src (processed_files w)\<rparr>) of
        (None, w2) \<Rightarrow> w2
      | (Some e, w2) \<Rightarrow> merge_failed e src outp w2)"
  using assms
    merge_body_write [of "w\<lparr>processed_files := insert src (processed_files w)\<rparr>" src D lh L outp temp retries att]
  by (simp add: merge_letterhead_def)

lemma write_retry_success:
  assumes "\<not> endswith (path_name src) ''.merged.pdf''" "src \<notin> processed_files w"
    "fs w src = Some (Pdf D)" "fs w lh = Some (Pdf L)" "length L = 1"
    "temp_path_for src outp = Inr temp"
    "k < nat retries" "\<forall>j<k. locked_attempt outp (att j)" "good_attempt outp (att k)"
  shows "fs (merge_letterhead w src lh outp retries att) (target src outp)
           = Some (Pdf (map (\<lambda>p. merge_page p (L ! 0)) D))
     \<and> (\<exists>es. trace (merge_letterhead w src lh outp retries att) = trace w @ es
            \<and> sleeps es = replicate k (Sleep 1.5)
            \<and> replacements es = (if outp = None then [Replaced temp src] else []))"
proof -
  let ?doc = "map (\<lambda>p. merge_page p (L ! 0)) D"
  let ?w1 = "w\<lparr>processed_files := insert src (processed_files w)\<rparr>"
  let ?r = "write_loop (nat retries) 0 att ?doc temp src outp ?w1"
  from assms(8,9) have "\<forall>j<k. locked_attempt outp (att (0 + j))" "good_attempt outp (att (0 + k))"
    by simp_all
  from write_loop_success [OF this assms(7), of ?doc temp src ?w1]
  have none: "fst ?r = None"
    and fsr: "fs (snd ?r) = (if outp = None then os_replace temp src ((fs w)(temp \<mapsto> Pdf ?doc))
          else (fs w)(temp \<mapsto> Pdf ?doc))"
    and tr: "\<exists>es. trace (snd ?r) = trace w @ es \<and> sleeps es = replicate k (Sleep (3 / 2))
            \<and> replacements es = (if outp = None then [Replaced temp src] else [])"
    by simp_all
  from none have eq: "merge_letterhead w src lh outp retries att = snd ?r"
    unfolding merge_letterhead_run [OF assms(1-6)] by (cases ?r) simp
  have "fs (snd ?r) (target src outp) = Some (Pdf ?doc)"
    using assms(6) fsr by (cases outp) (auto simp: target_def os_replace_def temp_path_for_def)
  with tr show ?thesis unfolding eq by simp
qed

lemma write_retry_exhausted:
  assumes "\<not> endswith (path_name src) ''.merged.pdf''" "src \<notin> processed_files w"
    "fs w src = Some (Pdf D)" "fs w lh = Some (Pdf L)" "length L = 1"
    "temp_path_for src outp = Inr temp"
    "\<forall>j<nat retries. locked_attempt outp (att j)"
  shows "(\<exists>es. trace (merge_letterhead w src lh outp retries att) =
            trace w @ es
            @ [Notify ''Merge Failed''
                (''Merge failed for '' @ path_name src
                 @ '': Could not save file after multiple retries.''),
               Log (''['' @ cross_mark @ ''] Merge failed for '' @ path_name src
                    @ '': Could not save file after multiple retries.'')]
            @ (if outp = None then []
               else [ShowError ''Merge Error'' ''Could not save file after multiple retries.''])
          \<and> sleeps es = replicate (nat retries) (Sleep 1.5) \<and> replacements es = [])
     \<and> (outp = None \<longrightarrow> fs (merge_letterhead w src lh outp retries att) src = fs w src)"
proof -
  let ?doc = "map (\<lambda>p. merge_page p (L ! 0)) D"
  let ?w1 = "w\<lparr>processed_files := insert src (processed_files w)\<rparr>"
  let ?r = "write_loop (nat retries) 0 att ?doc temp src outp ?w1"
  from assms(7) have "\<forall>j<nat retries. locked_attempt outp (att (0 + j))" by simp
  from write_loop_all_locked [OF this, of ?doc temp src ?w1]
  have exc: "fst ?r = Some (Exception ''Could not save file after multiple retries.'')"
    and fsr: "\<forall>p. p \<noteq> temp \<longrightarrow> fs (snd ?r) p = fs w p"
    and tr: "\<exists>es. trace (snd ?r) = trace w @ es \<and> sleeps es = replicate (nat retries) (Sleep (3 / 2))
            \<and> replacements es = []"
    by simp_all
  from exc have eq: "merge_letterhead w src lh outp retries att
      = merge_failed (Exception ''Could not save file after multiple retries.'') src outp (snd ?r)"
    unfolding merge_letterhead_run [OF assms(1-6)] by (cases ?r) simp
  have "outp = None \<longrightarrow> fs (snd ?r) src = fs w src"
    using fsr temp_path_differs [OF _ assms(1), of temp] assms(6) by auto
  moreover from tr obtain es where "trace (snd ?r) = trace w @ es"
    "sleeps es = replicate (nat retries) (Sleep (3 / 2))" "replacements es = []" by blast
  ultimately show ?thesis unfolding eq
    by (cases outp) (auto simp: trace_merge_failed)
qed

text \<open>
  C4. A job that reaches the write loop with \<open>retries = 3\<close>: the source is neither
  skipped nor unreadable and the letterhead has one page. If the first \<open>k < 3\<close>
  attempts fail on a lock and attempt \<open>k + 1\<close> succeeds, the final target (the source
  for an in-place job, the output path otherwise) holds exactly the merged document, the
  trace holds \<open>k\<close> sleeps of 1.5, one after each failed attempt, and exactly one
  replacement, of the source by the temporary file, for an in-place job (none with an
  output path). If all three attempts fail on a lock, the job fails with
  \<open>Could not save file after multiple retries.\<close>, which is notified and logged (and
  shown in a dialog when an output path was given); nothing was replaced and an in-place
  source is as it was.
\<close>

theorem write_retry:
  assumes "\<not> endswith (path_name src) ''.merged.pdf''" "src \<notin> processed_files w"
    "fs w src = Some (Pdf D)" "fs w lh = Some (Pdf L)" "length L = 1"
    "temp_path_for src outp = Inr temp"
  shows "(\<forall>k<3. (\<forall>j<k. locked_attempt outp (att j)) \<and> good_attempt outp (att k) \<longrightarrow>
            fs (merge_letterhead w src lh outp 3 att) (target src outp)
              = Some (Pdf (map (\<lambda>p. merge_page p (L ! 0)) D))
            \<and> (\<exists>es. trace (merge_letterhead w src lh outp 3 att) = trace w @ es
                   \<and> sleeps es = replicate k (Sleep 1.5)
                   \<and> replacements es = (if outp = None then [Replaced temp src] else [])))
     \<and> ((\<forall>j<3. locked_attempt outp (att j)) \<longrightarrow>
            (\<exists>es. trace (merge_letterhead w src lh outp 3 att) =
                trace w @ es
                @ [Notify ''Merge Failed''
                    (''Merge failed for '' @ path_name src
                     @ '': Could not save file after multiple retries.''),
                   Log (''['' @ cross_mark @ ''] Merge failed for '' @ path_name src
                        @ '': Could not save file after multiple retries.'')]
                @ (if outp = None then []
                   else [ShowError ''Merge Error'' ''Could not save file after multiple retries.''])
              \<and> sleeps es = replicate 3 (Sleep 1.5) \<and> replacements es = [])
            \<and> (outp = None \<longrightarrow> fs (merge_letterhead w src lh outp 3 att) src = fs w src))"
proof -
  have success: "\<forall>k<3. (\<forall>j<k. locked_attempt outp (att j)) \<and> good_attempt outp (att k) \<longrightarrow>
            fs (merge_letterhead w src lh outp 3 att) (target src outp)
              = Some (Pdf (map (\<lambda>p. merge_page p (L ! 0)) D))
            \<and> (\<exists>es. trace (merge_letterhead w src lh outp 3 att) = trace w @ es
                   \<and> sleeps es = replicate k (Sleep 1.5)
                   \<and> replacements es = (if outp = None then [Replaced temp src] else []))"
  proof (intro allI impI)
    fix k :: nat
    assume "k < 3" and h: "(\<forall>j<k. locked_attempt outp (att j)) \<and> good_attempt outp (att k)"
    then have "k < nat 3" by simp
    from write_retry_success [OF assms this] h
    show "fs (merge_letterhead w src lh outp 3 att) (target src outp)
              = Some (Pdf (map (\<lambda>p. merge_page p (L ! 0)) D))
            \<and> (\<exists>es. trace (merge_letterhead w src lh outp 3 att) = trace w @ es
                   \<and> sleeps es = replicate k (Sleep 1.5)
                   \<and> replacements es = (if outp = None then [Replaced temp src] else []))"
      by blast
  qed
  have exhausted: "(\<forall>j<3. locked_attempt outp (att j)) \<longrightarrow>
            (\<exists>es. trace (merge_letterhead w src lh outp 3 att) =
                trace w @ es
                @ [Notify ''Merge Failed''
                    (''Merge failed for '' @ path_name src
                     @ '': Could not save file after multiple retries.''),
                   Log (''['' @ cross_mark @ ''] Merge failed for '' @ path_name src
                        @ '': Could not save file after multiple retries.'')]
                @ (if outp = None then []
                   else [ShowError ''Merge Error'' ''Could not save file after multiple retries.''])
              \<and> sleeps es = replicate 3 (Sleep 1.5) \<and> replacements es = [])
            \<and> (outp = None \<longrightarrow> fs (merge_letterhead w src lh outp 3 att) src = fs w src)"
  proof
    assume "\<forall>j<3. locked_attempt outp (att j)"
    then have "\<forall>j<nat 3. locked_attempt outp (att j)" by simp
    from write_retry_exhausted [OF assms this]
    show "(\<exists>es. trace (merge_letterhead w src lh outp 3 att) =
                trace w @ es
                @ [Notify ''Merge Failed''
                    (''Merge failed for '' @ path_name src
                     @ '': Could not save file after multiple retries.''),
                   Log (''['' @ cross_mark @ ''] Merge failed for '' @ path_name src
                        @ '': Could not save file after multiple retries.'')]
                @ (if outp = None then []
                   else [ShowError ''Merge Error'' ''Could not save file after multiple retries.''])
              \<and> sleeps es = replicate 3 (Sleep 1.5) \<and> replacements es = [])
            \<and> (outp = None \<longrightarrow> fs (merge_letterhead w src lh outp 3 att) src = fs w src)"
      by simp
  qed
  from success exhausted show ?thesis by (rule conjI)
qed

theorem write_retry_witness:
  "fs (merge_letterhead example_world ''a.pdf'' ''lh.pdf'' None 3 locked_twice) ''a.pdf''
     = Some (Pdf [Merged (Content 1) (Content 9), Merged (Content 2) (Content 9)])
   \<and> (\<exists>es. trace (merge_letterhead example_world ''a.pdf'' ''lh.pdf'' None 3 locked_twice) = es
          \<and> sleeps es = [Sleep 1.5, Sleep 1.5]
          \<and> replacements es = [Replaced ''a.merged.pdf'' ''a.pdf''])
   \<and> (\<exists>es. trace (merge_letterhead example_world ''a.pdf'' ''lh.pdf'' None 3 always_locked) =
          es @ [Notify ''Merge Failed''
                  ''Merge failed for a.pdf: Could not save file after multiple retries.'',
                Log (''['' @ cross_mark
                     @ ''] Merge failed for a.pdf: Could not save file after multiple retries.'')]
          \<and> sleeps es = [Sleep 1.5, Sleep 1.5, Sleep 1.5] \<and> replacements es = [])
   \<and> fs (merge_letterhead example_world ''a.pdf'' ''lh.pdf'' None 3 always_locked) ''a.pdf''
     = Some (Pdf [Content 1, Content 2])"
proof -
  have a1: "\<not> endswith (path_name ''a.pdf'') ''.merged.pdf''"
    by (simp add: endswith_def path_name_def is_sep_def)
  have a2: "''a.pdf'' \<notin> processed_files example_world"
    by (simp add: example_world_def)
  have a3: "fs example_world ''a.pdf'' = Some (Pdf [Content 1, Content 2])"
    by (simp add: example_world_def example_fs_def)
  have a4: "fs example_world ''lh.pdf'' = Some (Pdf [Content 9])"
    by (simp add: example_world_def example_fs_def)
  have a5: "length [Content 9] = 1" by simp
  have a6: "temp_path_for ''a.pdf'' None = Inr ''a.merged.pdf''"
    by (simp add: temp_path_for_def with_suffix_def path_name_def path_parent_def
        name_suffix_def is_sep_def)
  note r = write_retry [OF a1 a2 a3 a4 a5 a6]
  have locked: "\<forall>j<2. locked_attempt None (locked_twice j)"
    by (simp add: locked_attempt_def locked_twice_def less_Suc_eq eval_nat_numeral)
  have good: "good_attempt None (locked_twice 2)"
    by (simp add: good_attempt_def locked_twice_def)
  from r [of locked_twice, THEN conjunct1, THEN spec, of 2] locked good
  have first: "fs (merge_letterhead example_world ''a.pdf'' ''lh.pdf'' None 3 locked_twice) ''a.pdf''
     = Some (Pdf [Merged (Content 1) (Content 9), Merged (Content 2) (Content 9)])
   \<and> (\<exists>es. trace (merge_letterhead example_world ''a.pdf'' ''lh.pdf'' None 3 locked_twice) = es
          \<and> sleeps es = [Sleep 1.5, Sleep 1.5]
          \<and> replacements es = [Replaced ''a.merged.pdf'' ''a.pdf''])"
    by (simp add: target_def merge_page_def example_world_def eval_nat_numeral)
  have all: "\<forall>j<3. locked_attempt None (always_locked j)"
    by (simp add: locked_attempt_def always_locked_def)
  from r [of always_locked, THEN conjunct2] all
  have second: "(\<exists>es. trace (merge_letterhead example_world ''a.pdf'' ''lh.pdf'' None 3 always_locked) =
          es @ [Notify ''Merge Failed''
                  ''Merge failed for a.pdf: Could not save file after multiple retries.'',
                Log (''['' @ cross_mark
                     @ ''] Merge failed for a.pdf: Could not save file after multiple retries.'')]
          \<and> sleeps es = [Sleep 1.5, Sleep 1.5, Sleep 1.5] \<and> replacements es = [])
   \<and> fs (merge_letterhead example_world ''a.pdf'' ''lh.pdf'' None 3 always_locked) ''a.pdf''
     = Some (Pdf [Content 1, Content 2])"
    by (simp add: path_name_def is_sep_def example_world_def example_fs_def eval_nat_numeral)
  from first second show ?thesis by blast
qed

section \<open>The event pipeline\<close>

lemma should_process_rejects: "\<not> fst (should_process h p e) \<Longrightarrow> snd (should_process h p e) = h"
  by (auto simp: should_process_def Let_def split: option.splits if_splits)

lemma should_process_accepts:
  "fst (should_process h p e) \<Longrightarrow>
     snd (should_process h p e) = h\<lparr>h_processed_files := (h_processed_files h)(resolve e p \<mapsto> now e)\<rparr>"
  by (auto simp: should_process_def Let_def split: option.splits if_splits)

lemma should_process_accepts_iff:
  "fst (should_process h p e) \<longleftrightarrow>
     (\<exists>m. mtime e = Some m \<and> start_time h \<le> m
        \<and> DEBOUNCE_SECONDS \<le> now e - (case h_processed_files h (resolve e p) of None \<Rightarrow> 0 | Some t \<Rightarrow> t))"
  by (auto simp: should_process_def Let_def split: option.splits if_splits)

lemma process_event_rejected:
  "\<not> fst (should_process h (src_path ev) e) \<Longrightarrow> process_event h ev e w = (h, w)"
  using should_process_rejects [of h "src_path ev" e]
  by (cases "should_process h (src_path ev) e") (auto simp: process_event_def Let_def)

lemma process_event_accepted:
  assumes "passes_filter ev" "fst (should_process h (src_path ev) e)"
  shows "process_event h ev e w =
     (h\<lparr>h_processed_files := (h_processed_files h)(resolve e (src_path ev) \<mapsto> now e)\<rparr>,
      handle_pdf (h\<lparr>h_processed_files := (h_processed_files h)(resolve e (src_path ev) \<mapsto> now e)\<rparr>)
        (src_path ev) e w)"
  using assms should_process_accepts [of h "src_path ev" e]
  by (cases "should_process h (src_path ev) e") (auto simp: process_event_def Let_def)

lemma handle_pdf_not_ready:
  assumes "\<not> fst (wait_until_file_ready (sizes e) 10 w)"
  shows "handle_pdf h p e w =
     emit [Log (''[!] File never stabilized: '' @ path_name p)] (snd (wait_until_file_ready (sizes e) 10 w))"
  using assms by (cases "wait_until_file_ready (sizes e) 10 w") (auto simp: handle_pdf_def)

lemma handle_pdf_ready:
  assumes "fst (wait_until_file_ready (sizes e) 10 w)"
  shows "handle_pdf h p e w =
     merge_letterhead (snd (wait_until_file_ready (sizes e) 10 w)) p (h_letterhead_path h) None 3 (attempts e)"
  using assms by (cases "wait_until_file_ready (sizes e) 10 w") (auto simp: handle_pdf_def)

lemma wait_sleeps:
  "\<exists>m\<le>nat (timeout * 2). snd (wait_until_file_ready szs timeout w) = emit (replicate m (Sleep 0.5)) w"
  using poll_sleeps [of "nat (timeout * 2)" 0 szs "- 1" w] by (simp add: wait_until_file_ready_def)

text \<open>
  C6, as the code has it. For every event that passes the filter the stages run in the
  order filter, debounce check, wait of the stability gate, merge. An event that the
  debounce check rejects changes nothing: no poll is made. For an event that it accepts,
  the time of acceptance is recorded for the path before the wait starts, so it is
  recorded whatever the wait and the merge give; when the file does not become stable
  only the sleeps of the polls and the log line are added and nothing is merged; when it
  does, the merge runs in place after the polls. Creation and modification events are
  handled alike.
\<close>

theorem pipeline_order:
  assumes "passes_filter ev"
  shows "(\<not> fst (should_process h (src_path ev) e) \<longrightarrow> process_event h ev e w = (h, w))
   \<and> (fst (should_process h (src_path ev) e) \<longrightarrow>
        h_processed_files (fst (process_event h ev e w)) (resolve e (src_path ev)) = Some (now e)
        \<and> (\<not> fst (wait_until_file_ready (sizes e) 10 w) \<longrightarrow>
             fs (snd (process_event h ev e w)) = fs w
             \<and> processed_files (snd (process_event h ev e w)) = processed_files w
             \<and> (\<exists>m\<le>20. trace (snd (process_event h ev e w)) =
                   trace w @ replicate m (Sleep 0.5)
                   @ [Log (''[!] File never stabilized: '' @ path_name (src_path ev))]))
        \<and> (fst (wait_until_file_ready (sizes e) 10 w) \<longrightarrow>
             snd (process_event h ev e w) =
               merge_letterhead (snd (wait_until_file_ready (sizes e) 10 w)) (src_path ev)
                 (h_letterhead_path h) None 3 (attempts e)))
   \<and> on_created h ev e w = process_event h ev e w
   \<and> on_modified h ev e w = process_event h ev e w"
proof -
  have rej: "\<not> fst (should_process h (src_path ev) e) \<longrightarrow> process_event h ev e w = (h, w)"
    by (simp add: process_event_rejected)
  have acc: "fst (should_process h (src_path ev) e) \<longrightarrow>
        h_processed_files (fst (process_event h ev e w)) (resolve e (src_path ev)) = Some (now e)
        \<and> (\<not> fst (wait_until_file_ready (sizes e) 10 w) \<longrightarrow>
             fs (snd (process_event h ev e w)) = fs w
             \<and> processed_files (snd (process_event h ev e w)) = processed_files w
             \<and> (\<exists>m\<le>20. trace (snd (process_event h ev e w)) =
                   trace w @ replicate m (Sleep 0.5)
                   @ [Log (''[!] File never stabilized: '' @ path_name (src_path ev))]))
        \<and> (fst (wait_until_file_ready (sizes e) 10 w) \<longrightarrow>
             snd (process_event h ev e w) =
               merge_letterhead (snd (wait_until_file_ready (sizes e) 10 w)) (src_path ev)
                 (h_letterhead_path h) None 3 (attempts e))"
  proof
    assume a: "fst (should_process h (src_path ev) e)"
    note pe = process_event_accepted [OF assms a, of w]
    from wait_sleeps [of 10 "sizes e" w] obtain m where
      m: "m \<le> 20" "snd (wait_until_file_ready (sizes e) 10 w) = emit (replicate m (Sleep 0.5)) w"
      by auto
    have 1: "h_processed_files (fst (process_event h ev e w)) (resolve e (src_path ev)) = Some (now e)"
      by (simp add: pe)
    have 2: "\<not> fst (wait_until_file_ready (sizes e) 10 w) \<longrightarrow>
             fs (snd (process_event h ev e w)) = fs w
             \<and> processed_files (snd (process_event h ev e w)) = processed_files w
             \<and> (\<exists>m\<le>20. trace (snd (process_event h ev e w)) =
                   trace w @ replicate m (Sleep 0.5)
                   @ [Log (''[!] File never stabilized: '' @ path_name (src_path ev))])"
      using m by (auto simp: pe handle_pdf_not_ready simp del: replicate_Suc)
    have 3: "fst (wait_until_file_ready (sizes e) 10 w) \<longrightarrow>
             snd (process_event h ev e w) =
               merge_letterhead (snd (wait_until_file_ready (sizes e) 10 w)) (src_path ev)
                 (h_letterhead_path h) None 3 (attempts e)"
      by (simp add: pe handle_pdf_ready)
    from 1 2 3 show "h_processed_files (fst (process_event h ev e w)) (resolve e (src_path ev)) = Some (now e)
        \<and> (\<not> fst (wait_until_file_ready (sizes e) 10 w) \<longrightarrow>
             fs (snd (process_event h ev e w)) = fs w
             \<and> processed_files (snd (process_event h ev e w)) = processed_files w
             \<and> (\<exists>m\<le>20. trace (snd (process_event h ev e w)) =
                   trace w @ replicate m (Sleep 0.5)
                   @ [Log (''[!] File never stabilized: '' @ path_name (src_path ev))]))
        \<and> (fst (wait_until_file_ready (sizes e) 10 w) \<longrightarrow>
             snd (process_event h ev e w) =
               merge_letterhead (snd (wait_until_file_ready (sizes e) 10 w)) (src_path ev)
                 (h_letterhead_path h) None 3 (attempts e))"
      by blast
  qed
  from rej acc show ?thesis by (simp add: on_created_def on_modified_def)
qed

lemma passes_filter_example: "passes_filter example_event"
  by (simp add: passes_filter_def example_event_def endswith_def lower_def lower_char_def)

lemma stays_empty_not_ready: "\<not> fst (wait_until_file_ready stays_empty 10 w)"
  by (simp add: wait_until_file_ready_def stays_empty_def eval_nat_numeral)

lemma stays_empty_sleeps:
  "snd (wait_until_file_ready stays_empty 10 w) = emit (replicate 20 (Sleep 0.5)) w"
  by (simp add: wait_until_file_ready_def stays_empty_def eval_nat_numeral emit_def)

text \<open>
  With the debounce check after the wait, as the specification orders the stages, an
  event inside the debounce window would first poll the empty file twenty times, and an
  accepted event whose file never becomes stable would record no time. The code does
  neither: the first event changes nothing, the second records its time.
\<close>

theorem debounce_before_stability_wait:
  "passes_filter example_event
   \<and> process_event recent_handler example_event empty_file_env example_world
       = (recent_handler, example_world)
   \<and> trace (snd (spec_process_event recent_handler example_event empty_file_env example_world))
       = replicate 20 (Sleep 0.5) @ [Log ''[!] File never stabilized: a.pdf'']
   \<and> h_processed_files
         (fst (process_event example_handler example_event empty_file_env example_world)) ''a.pdf''
       = Some 100
   \<and> h_processed_files
         (fst (spec_process_event example_handler example_event empty_file_env example_world)) ''a.pdf''
       = None"
proof -
  have rej: "\<not> fst (should_process recent_handler ''a.pdf'' empty_file_env)"
    by (simp add: should_process_def recent_handler_def example_handler_def InvoiceHandler_def
        empty_file_env_def DEBOUNCE_SECONDS_def)
  have acc: "fst (should_process example_handler ''a.pdf'' empty_file_env)"
    by (simp add: should_process_def example_handler_def InvoiceHandler_def
        empty_file_env_def DEBOUNCE_SECONDS_def)
  have sz: "sizes empty_file_env = stays_empty" by (simp add: empty_file_env_def)
  have src: "src_path example_event = ''a.pdf''" by (simp add: example_event_def)
  have 1: "process_event recent_handler example_event empty_file_env example_world
       = (recent_handler, example_world)"
    using rej by (simp add: process_event_rejected src)
  have spec: "spec_process_event h example_event empty_file_env example_world =
      (h, emit [Log ''[!] File never stabilized: a.pdf'']
            (emit (replicate 20 (Sleep 0.5)) example_world))" for h
    using stays_empty_not_ready [of example_world] stays_empty_sleeps [of example_world]
    by (cases "wait_until_file_ready stays_empty 10 example_world")
      (simp add: spec_process_event_def passes_filter_example sz src path_name_def is_sep_def
       )
  have 2: "trace (snd (spec_process_event recent_handler example_event empty_file_env example_world))
       = replicate 20 (Sleep 0.5) @ [Log ''[!] File never stabilized: a.pdf'']"
    unfolding spec by (simp add: example_world_def)
  have 3: "h_processed_files
         (fst (process_event example_handler example_event empty_file_env example_world)) ''a.pdf''
       = Some 100"
    using process_event_accepted [OF passes_filter_example, of example_handler empty_file_env example_world] acc
    by (simp add: src empty_file_env_def)
  have 4: "h_processed_files
         (fst (spec_process_event example_handler example_event empty_file_env example_world)) ''a.pdf''
       = None"
    unfolding spec by (simp add: example_handler_def InvoiceHandler_def)
  from passes_filter_example 1 2 3 4 show ?thesis by blast
qed

lemma written_ready: "fst (wait_until_file_ready written 10 w)"
  by (simp add: wait_until_file_ready_def written_def eval_nat_numeral)

lemma written_sleeps: "snd (wait_until_file_ready written 10 w) = emit [Sleep 0.5] w"
  by (simp add: wait_until_file_ready_def written_def eval_nat_numeral)

theorem pipeline_order_witness:
  "passes_filter example_event
   \<and> process_event recent_handler example_event empty_file_env example_world
       = (recent_handler, example_world)
   \<and> h_processed_files
         (fst (process_event example_handler example_event empty_file_env example_world)) ''a.pdf''
       = Some 100
   \<and> fs (snd (process_event example_handler example_event empty_file_env example_world))
       = example_fs
   \<and> snd (process_event example_handler example_event first_env example_world)
       = merge_letterhead (emit [Sleep 0.5] example_world) ''a.pdf'' ''lh.pdf'' None 3 always_ok"
proof -
  have rej: "\<not> fst (should_process recent_handler (src_path example_event) empty_file_env)"
    by (simp add: should_process_def recent_handler_def example_handler_def InvoiceHandler_def
        empty_file_env_def DEBOUNCE_SECONDS_def example_event_def)
  have acc: "fst (should_process example_handler (src_path example_event) empty_file_env)"
    by (simp add: should_process_def example_handler_def InvoiceHandler_def
        empty_file_env_def DEBOUNCE_SECONDS_def example_event_def)
  have acc1: "fst (should_process example_handler (src_path example_event) first_env)"
    by (simp add: should_process_def example_handler_def InvoiceHandler_def
        first_env_def DEBOUNCE_SECONDS_def example_event_def)
  have nr: "\<not> fst (wait_until_file_ready (sizes empty_file_env) 10 example_world)"
    by (simp add: empty_file_env_def stays_empty_not_ready)
  have rd: "fst (wait_until_file_ready (sizes first_env) 10 example_world)"
    by (simp add: first_env_def written_ready)
  have 1: "process_event recent_handler example_event empty_file_env example_world
       = (recent_handler, example_world)"
    using pipeline_order [OF passes_filter_example, of recent_handler empty_file_env example_world] rej
    by blast
  have 2: "h_processed_files
         (fst (process_event example_handler example_event empty_file_env example_world))
         (resolve empty_file_env (src_path example_event)) = Some (now empty_file_env)
       \<and> fs (snd (process_event example_handler example_event empty_file_env example_world))
         = fs example_world"
    using pipeline_order [OF passes_filter_example, of example_handler empty_file_env example_world]
      acc nr by blast
  have 3: "snd (process_event example_handler example_event first_env example_world)
       = merge_letterhead (snd (wait_until_file_ready (sizes first_env) 10 example_world))
           (src_path example_event) (h_letterhead_path example_handler) None 3 (attempts first_env)"
    using pipeline_order [OF passes_filter_example, of example_handler first_env example_world]
      acc1 rd by blast
  from 2 have s2: "h_processed_files
         (fst (process_event example_handler example_event empty_file_env example_world)) ''a.pdf''
       = Some 100
      \<and> fs (snd (process_event example_handler example_event empty_file_env example_world))
       = example_fs"
    by (simp add: empty_file_env_def example_event_def example_world_def)
  from 3 have s3: "snd (process_event example_handler example_event first_env example_world)
       = merge_letterhead (emit [Sleep 0.5] example_world) ''a.pdf'' ''lh.pdf'' None 3 always_ok"
    by (simp add: first_env_def written_sleeps example_event_def example_handler_def InvoiceHandler_def)
  from passes_filter_example 1 s2 s3 show ?thesis by blast
qed

text \<open>
  C7. A creation event followed by a modification event for the same path, the second
  taken less than \<open>DEBOUNCE_SECONDS\<close> after the first: the two do not both reach the
  merge, and at most one of them changes the state at all. When the first passes the
  filter and is accepted, its time is recorded for the path, the debounce rule rejects
  the second and the second changes nothing.
\<close>

theorem debounce_window:
  assumes "now e2 - now e1 < DEBOUNCE_SECONDS"
    and "resolve e2 (src_path ev) = resolve e1 (src_path ev)"
  shows "\<not> (calls_merge h ev e1 w
           \<and> calls_merge (fst (on_created h ev e1 w)) ev e2 (snd (on_created h ev e1 w)))
   \<and> (snd (on_created h ev e1 w) = w
        \<or> snd (on_modified (fst (on_created h ev e1 w)) ev e2 (snd (on_created h ev e1 w)))
            = snd (on_created h ev e1 w))
   \<and> (passes_filter ev \<and> fst (should_process h (src_path ev) e1) \<longrightarrow>
        h_processed_files (fst (on_created h ev e1 w)) (resolve e2 (src_path ev)) = Some (now e1)
        \<and> \<not> fst (should_process (fst (on_created h ev e1 w)) (src_path ev) e2)
        \<and> on_modified (fst (on_created h ev e1 w)) ev e2 (snd (on_created h ev e1 w))
            = on_created h ev e1 w)"
proof (cases "passes_filter ev \<and> fst (should_process h (src_path ev) e1)")
  case True
  let ?h1 = "h\<lparr>h_processed_files := (h_processed_files h)(resolve e1 (src_path ev) \<mapsto> now e1)\<rparr>"
  from True have pe: "process_event h ev e1 w = (?h1, handle_pdf ?h1 (src_path ev) e1 w)"
    by (simp add: process_event_accepted)
  have rej: "\<not> fst (should_process ?h1 (src_path ev) e2)"
    using assms by (simp add: should_process_accepts_iff)
  then have "process_event ?h1 ev e2 w' = (?h1, w')" for w'
    by (rule process_event_rejected)
  with True rej assms(2) show ?thesis
    by (simp add: on_created_def on_modified_def pe calls_merge_def)
next
  case False
  then have "process_event h ev e1 w = (h, w)"
    by (auto simp: process_event_rejected) (simp add: process_event_def)
  with False show ?thesis
    by (auto simp: on_created_def on_modified_def calls_merge_def)
qed

lemma merge_example_in_place:
  "merge_letterhead (emit [Sleep 0.5] example_world) ''a.pdf'' ''lh.pdf'' None 3 always_ok =
     \<lparr>fs = [''lh.pdf'' \<mapsto> Pdf [Content 9],
             ''a.pdf'' \<mapsto> Pdf [Merged (Content 1) (Content 9), Merged (Content 2) (Content 9)]],
      processed_files = {''a.pdf''},
      trace = [Sleep 0.5, Wrote ''a.merged.pdf'', Replaced ''a.merged.pdf'' ''a.pdf'',
               Log (''['' @ check_mark @ ''] Merged: a.pdf''),
               Notify ''Merge Complete'' ''Merged: a.pdf'']\<rparr>"
  by (simp add: merge_letterhead_def merge_body_def PdfReader_def merge_documents_def
      merge_page_def temp_path_for_def with_suffix_def path_name_def path_parent_def
      name_suffix_def is_sep_def endswith_def emit_def os_replace_def always_ok_def
      example_world_def example_fs_def numeral_3_eq_3 fun_upd_twist)

theorem debounce_window_witness:
  "now written_env - now first_env < DEBOUNCE_SECONDS
   \<and> calls_merge example_handler example_event first_env example_world
   \<and> in_place_merges ''a.pdf''
        (trace (snd (on_created example_handler example_event first_env example_world))) = 1
   \<and> \<not> fst (should_process (fst (on_created example_handler example_event first_env example_world))
              ''a.pdf'' written_env)
   \<and> on_modified (fst (on_created example_handler example_event first_env example_world))
        example_event written_env
        (snd (on_created example_handler example_event first_env example_world))
       = on_created example_handler example_event first_env example_world"
proof -
  have win: "now written_env - now first_env < DEBOUNCE_SECONDS"
    by (simp add: written_env_def first_env_def DEBOUNCE_SECONDS_def)
  have res: "resolve written_env (src_path example_event) = resolve first_env (src_path example_event)"
    by (simp add: written_env_def first_env_def)
  have acc: "fst (should_process example_handler (src_path example_event) first_env)"
    by (simp add: should_process_def example_handler_def InvoiceHandler_def
        first_env_def DEBOUNCE_SECONDS_def example_event_def)
  have calls: "calls_merge example_handler example_event first_env example_world"
    using acc by (simp add: calls_merge_def passes_filter_example first_env_def written_ready)
  have w1: "snd (on_created example_handler example_event first_env example_world)
      = merge_letterhead (emit [Sleep 0.5] example_world) ''a.pdf'' ''lh.pdf'' None 3 always_ok"
  proof -
    have rd: "fst (wait_until_file_ready (sizes first_env) 10 example_world)"
      by (simp add: first_env_def written_ready)
    have "snd (on_created example_handler example_event first_env example_world)
      = merge_letterhead (snd (wait_until_file_ready (sizes first_env) 10 example_world))
          (src_path example_event) (h_letterhead_path example_handler) None 3 (attempts first_env)"
      unfolding on_created_def process_event_accepted [OF passes_filter_example acc]
      using handle_pdf_ready [OF rd] by simp
    then show ?thesis
      by (simp add: first_env_def written_sleeps example_event_def example_handler_def
          InvoiceHandler_def)
  qed
  have once: "in_place_merges ''a.pdf''
        (trace (snd (on_created example_handler example_event first_env example_world))) = 1"
    unfolding w1 merge_example_in_place by (simp add: in_place_merges_def)
  from debounce_window [OF win res, of example_handler example_world] passes_filter_example acc
  have "\<not> fst (should_process (fst (on_created example_handler example_event first_env example_world))
              (src_path example_event) written_env)
   \<and> on_modified (fst (on_created example_handler example_event first_env example_world))
        example_event written_env
        (snd (on_created example_handler example_event first_env example_world))
       = on_created example_handler example_event first_env example_world"
    by blast
  then show ?thesis using win calls once by (simp add: example_event_def)
qed

section \<open>The processed set over a process run\<close>

lemma in_place_merges_append [simp]:
  "in_place_merges p (xs @ ys) = in_place_merges p xs + in_place_merges p ys"
  by (simp add: in_place_merges_def)






lemma merge_body_processed [simp]:
  "processed_files (snd (merge_body w src lh outp retries att)) = processed_files w"
  by (simp add: merge_body_def split: sum.splits)




lemma grows_refl [simp]: "grows w w"
  by (simp add: grows_def in_place_merges_def)



lemma grows_fs [simp]: "grows w (w\<lparr>fs := f\<rparr>)"
  by (simp add: grows_def in_place_merges_def)


lemma replacements_sleeps [simp]: "replacements (replicate m (Sleep d)) = []"
  by (induction m) (simp_all add: replacements_def)















lemma start_world [simp]:
  "processed_files (snd (start files lh folder)) = {}" "trace (snd (start files lh folder)) = []"
  by (simp_all add: start_def)













section \<open>Jobs with an explicit output path\<close>



















end
